theory Spec2Isabelle
  imports Complex_Main
begin


section \<open>The scalar type of the floating instantiations\<close>

text \<open>
  The library instantiates its templates at \<^verbatim>\<open>f32\<close> (\<^verbatim>\<open>fvec3\<close>, \<^verbatim>\<open>fquat\<close>). A value
  of that type is modelled as a real number or one of the three kinds of IEEE 754 special
  value. Rounding, overflow, underflow and the sign of zero are abstracted: an operation
  on finite operands returns the exact real result, and a zero divisor counts as \<open>+0\<close>.
  What is kept is what the guards of the code are about: \<open>0/0\<close>, \<open>0 * inf\<close> and
  \<open>inf - inf\<close> are NaN, \<open>x/0\<close> is infinite for \<open>x \<noteq> 0\<close>, and every comparison
  with a NaN is false.
\<close>

datatype fp = Fin real | PInf | NInf | NaN

instantiation fp :: "{zero, one, plus, uminus, minus, times, inverse, ord}"
begin

definition zero_fp :: fp where
  "zero_fp = Fin 0"

definition one_fp :: fp where
  "one_fp = Fin 1"

fun plus_fp :: "fp \<Rightarrow> fp \<Rightarrow> fp" where
  "plus_fp (Fin a) (Fin b) = Fin (a + b)"
| "plus_fp NaN _ = NaN"
| "plus_fp _ NaN = NaN"
| "plus_fp PInf NInf = NaN"
| "plus_fp NInf PInf = NaN"
| "plus_fp PInf _ = PInf"
| "plus_fp _ PInf = PInf"
| "plus_fp NInf _ = NInf"
| "plus_fp _ NInf = NInf"

fun uminus_fp :: "fp \<Rightarrow> fp" where
  "uminus_fp (Fin a) = Fin (- a)"
| "uminus_fp PInf = NInf"
| "uminus_fp NInf = PInf"
| "uminus_fp NaN = NaN"

definition minus_fp :: "fp \<Rightarrow> fp \<Rightarrow> fp" where
  "minus_fp a b = a + (- b)"

fun times_fp :: "fp \<Rightarrow> fp \<Rightarrow> fp" where
  "times_fp (Fin a) (Fin b) = Fin (a * b)"
| "times_fp NaN _ = NaN"
| "times_fp _ NaN = NaN"
| "times_fp (Fin a) PInf = (if a = 0 then NaN else if 0 < a then PInf else NInf)"
| "times_fp (Fin a) NInf = (if a = 0 then NaN else if 0 < a then NInf else PInf)"
| "times_fp PInf (Fin b) = (if b = 0 then NaN else if 0 < b then PInf else NInf)"
| "times_fp NInf (Fin b) = (if b = 0 then NaN else if 0 < b then NInf else PInf)"
| "times_fp PInf PInf = PInf"
| "times_fp NInf NInf = PInf"
| "times_fp PInf NInf = NInf"
| "times_fp NInf PInf = NInf"

fun divide_fp :: "fp \<Rightarrow> fp \<Rightarrow> fp" where
  "divide_fp (Fin a) (Fin b) =
     (if b = 0 then (if a = 0 then NaN else if 0 < a then PInf else NInf)
      else Fin (a / b))"
| "divide_fp NaN _ = NaN"
| "divide_fp _ NaN = NaN"
| "divide_fp (Fin a) _ = Fin 0"
| "divide_fp PInf (Fin b) = (if 0 \<le> b then PInf else NInf)"
| "divide_fp NInf (Fin b) = (if 0 \<le> b then NInf else PInf)"
| "divide_fp _ _ = NaN"

definition inverse_fp :: "fp \<Rightarrow> fp" where
  "inverse_fp a = divide (Fin 1) a"

fun less_fp :: "fp \<Rightarrow> fp \<Rightarrow> bool" where
  "less_fp (Fin a) (Fin b) = (a < b)"
| "less_fp NaN _ = False"
| "less_fp _ NaN = False"
| "less_fp _ NInf = False"
| "less_fp PInf _ = False"
| "less_fp _ _ = True"

fun less_eq_fp :: "fp \<Rightarrow> fp \<Rightarrow> bool" where
  "less_eq_fp (Fin a) (Fin b) = (a \<le> b)"
| "less_eq_fp NaN _ = False"
| "less_eq_fp _ NaN = False"
| "less_eq_fp NInf _ = True"
| "less_eq_fp _ PInf = True"
| "less_eq_fp _ _ = False"

instance ..

end

text \<open>
  The scalar helpers of \<^verbatim>\<open>common.h\<close> that the functions below call (\<^verbatim>\<open>sml::sqrt\<close>,
  \<^verbatim>\<open>sml::min\<close>, \<^verbatim>\<open>sml::max\<close>). The header is not among the sources; the specification
  describes them as pure numeric functions with standard IEEE semantics.
\<close>

fun fsqrt :: "fp \<Rightarrow> fp" where
  \<comment> \<open>Modelled from the spec: \<^verbatim>\<open>sml::sqrt\<close>, missing with \<^verbatim>\<open>common.h\<close>.\<close>
  "fsqrt (Fin a) = (if a < 0 then NaN else Fin (sqrt a))"
| "fsqrt PInf = PInf"
| "fsqrt _ = NaN"

definition smin :: "'a::ord \<Rightarrow> 'a \<Rightarrow> 'a" where
  \<comment> \<open>Modelled from the spec: \<^verbatim>\<open>sml::min\<close>, missing with \<^verbatim>\<open>common.h\<close>; it is also
     what one lane of \<^verbatim>\<open>_mm_min_ps\<close> computes.\<close>
  "smin a b = (if a < b then a else b)"

definition smax :: "'a::ord \<Rightarrow> 'a \<Rightarrow> 'a" where
  \<comment> \<open>Modelled from the spec: \<^verbatim>\<open>sml::max\<close>, missing with \<^verbatim>\<open>common.h\<close>; it is also
     what one lane of \<^verbatim>\<open>_mm_max_ps\<close> computes.\<close>
  "smax a b = (if b < a then a else b)"


section \<open>vec3\<close>

text \<open>
  \<^verbatim>\<open>vec3<T>\<close> is a union of \<^verbatim>\<open>struct { T x, y, z; }\<close> and \<^verbatim>\<open>T v[4]\<close>: three components and
  the padding slot \<^verbatim>\<open>v[3]\<close>. Every operation with an \<^verbatim>\<open>if constexpr\<close> branch takes the
  flag \<open>simd\<close>, which is the compile-time condition \<^verbatim>\<open>std::is_same<T, f32>::value\<close>: the
  vectorised branch loads, combines and stores all four slots, the fallback touches
  \<open>x, y, z\<close> only. (The \<^verbatim>\<open>f64\<close> branches do the same on four lanes of doubles, except in
  \<^verbatim>\<open>dot\<close>, which reads 32 bits of the sum back as a double; they are not modelled.)
  The scalar type is a type parameter: \<open>fp\<close> with \<open>simd = True\<close> is \<^verbatim>\<open>fvec3\<close>, \<open>int\<close> with
  \<open>simd = False\<close> is \<^verbatim>\<open>ivec3\<close> (no operation below can overflow in the theorems that use
  it).
\<close>

record 'a vec3 =
  vx :: 'a
  vy :: 'a
  vz :: 'a
  vpad :: 'a

definition vec3_new :: "'a::zero \<Rightarrow> 'a \<Rightarrow> 'a \<Rightarrow> 'a vec3" where
  \<comment> \<open>\<^verbatim>\<open>vec3(T x, T y, T z)\<close>: \<^verbatim>\<open>set(x, y, z); v[3] = 0\<close>\<close>
  "vec3_new a b c = \<lparr>vx = a, vy = b, vz = c, vpad = 0\<rparr>"

definition vec3_default :: "'a::zero vec3" where
  \<comment> \<open>\<^verbatim>\<open>vec3()\<close>: \<^verbatim>\<open>zero(); v[3] = 0\<close>\<close>
  "vec3_default = \<lparr>vx = 0, vy = 0, vz = 0, vpad = 0\<rparr>"

definition vec3_splat :: "'a::zero \<Rightarrow> 'a vec3" where
  \<comment> \<open>\<^verbatim>\<open>explicit vec3(T v)\<close>: \<^verbatim>\<open>set(v, v, v); v[3] = 0\<close>\<close>
  "vec3_splat s = \<lparr>vx = s, vy = s, vz = s, vpad = 0\<rparr>"

definition vec3_copy :: "'a::zero vec3 \<Rightarrow> 'a vec3" where
  \<comment> \<open>the copy and move constructors: three components copied, \<^verbatim>\<open>v[3] = 0\<close>. Every
     argument passed by value and every value returned from a by-value parameter goes
     through one of them.\<close>
  "vec3_copy v = \<lparr>vx = vx v, vy = vy v, vz = vz v, vpad = 0\<rparr>"

definition vec3_set :: "'a vec3 \<Rightarrow> 'a \<Rightarrow> 'a \<Rightarrow> 'a \<Rightarrow> 'a vec3" where
  \<comment> \<open>\<^verbatim>\<open>set(T x, T y, T z)\<close>\<close>
  "vec3_set v a b c = v\<lparr>vx := a, vy := b, vz := c\<rparr>"

definition vec3_assign :: "'a vec3 \<Rightarrow> 'a vec3 \<Rightarrow> 'a vec3" where
  \<comment> \<open>\<^verbatim>\<open>operator = (const vec3&)\<close> and \<^verbatim>\<open>operator = (vec3&&)\<close>: \<^verbatim>\<open>v[0..2]\<close> only\<close>
  "vec3_assign v other = v\<lparr>vx := vx other, vy := vy other, vz := vz other\<rparr>"

definition add_assign :: "bool \<Rightarrow> 'a::plus vec3 \<Rightarrow> 'a vec3 \<Rightarrow> 'a vec3" where
  \<comment> \<open>\<^verbatim>\<open>operator += (const vec3&)\<close>\<close>
  "add_assign simd v other =
     (if simd
      then \<lparr>vx = vx v + vx other, vy = vy v + vy other, vz = vz v + vz other,
            vpad = vpad v + vpad other\<rparr>
      else v\<lparr>vx := vx v + vx other, vy := vy v + vy other, vz := vz v + vz other\<rparr>)"

definition sub_assign :: "bool \<Rightarrow> 'a::minus vec3 \<Rightarrow> 'a vec3 \<Rightarrow> 'a vec3" where
  \<comment> \<open>\<^verbatim>\<open>operator -= (const vec3&)\<close>\<close>
  "sub_assign simd v other =
     (if simd
      then \<lparr>vx = vx v - vx other, vy = vy v - vy other, vz = vz v - vz other,
            vpad = vpad v - vpad other\<rparr>
      else v\<lparr>vx := vx v - vx other, vy := vy v - vy other, vz := vz v - vz other\<rparr>)"

definition mul_assign :: "bool \<Rightarrow> 'a::times vec3 \<Rightarrow> 'a vec3 \<Rightarrow> 'a vec3" where
  \<comment> \<open>\<^verbatim>\<open>operator *= (const vec3&)\<close>\<close>
  "mul_assign simd v other =
     (if simd
      then \<lparr>vx = vx v * vx other, vy = vy v * vy other, vz = vz v * vz other,
            vpad = vpad v * vpad other\<rparr>
      else v\<lparr>vx := vx v * vx other, vy := vy v * vy other, vz := vz v * vz other\<rparr>)"

definition mul_assign_T :: "bool \<Rightarrow> 'a::times vec3 \<Rightarrow> 'a \<Rightarrow> 'a vec3" where
  \<comment> \<open>\<^verbatim>\<open>operator *= (const T)\<close>: the scalar is broadcast to all four lanes\<close>
  "mul_assign_T simd v other =
     (if simd
      then \<lparr>vx = vx v * other, vy = vy v * other, vz = vz v * other, vpad = vpad v * other\<rparr>
      else v\<lparr>vx := vx v * other, vy := vy v * other, vz := vz v * other\<rparr>)"

definition div_assign :: "bool \<Rightarrow> 'a::inverse vec3 \<Rightarrow> 'a vec3 \<Rightarrow> 'a vec3" where
  \<comment> \<open>\<^verbatim>\<open>operator /= (const vec3&)\<close>\<close>
  "div_assign simd v other =
     (if simd
      then \<lparr>vx = vx v / vx other, vy = vy v / vy other, vz = vz v / vz other,
            vpad = vpad v / vpad other\<rparr>
      else v\<lparr>vx := vx v / vx other, vy := vy v / vy other, vz := vz v / vz other\<rparr>)"

definition div_assign_T :: "bool \<Rightarrow> 'a::inverse vec3 \<Rightarrow> 'a \<Rightarrow> 'a vec3" where
  \<comment> \<open>\<^verbatim>\<open>operator /= (const T)\<close>\<close>
  "div_assign_T simd v other =
     (if simd
      then \<lparr>vx = vx v / other, vy = vy v / other, vz = vz v / other, vpad = vpad v / other\<rparr>
      else v\<lparr>vx := vx v / other, vy := vy v / other, vz := vz v / other\<rparr>)"

definition vec3_min :: "bool \<Rightarrow> 'a::{ord,zero} vec3 \<Rightarrow> 'a vec3 \<Rightarrow> 'a vec3" where
  \<comment> \<open>\<^verbatim>\<open>vec3::min\<close>\<close>
  "vec3_min simd a b =
     (if simd
      then \<lparr>vx = smin (vx a) (vx b), vy = smin (vy a) (vy b), vz = smin (vz a) (vz b),
            vpad = smin (vpad a) (vpad b)\<rparr>
      else vec3_new (smin (vx a) (vx b)) (smin (vy a) (vy b)) (smin (vz a) (vz b)))"

definition vec3_max :: "bool \<Rightarrow> 'a::{ord,zero} vec3 \<Rightarrow> 'a vec3 \<Rightarrow> 'a vec3" where
  \<comment> \<open>\<^verbatim>\<open>vec3::max\<close>; the fallback reads \<^verbatim>\<open>sml::max(a.x, b.y)\<close> for the first component\<close>
  "vec3_max simd a b =
     (if simd
      then \<lparr>vx = smax (vx a) (vx b), vy = smax (vy a) (vy b), vz = smax (vz a) (vz b),
            vpad = smax (vpad a) (vpad b)\<rparr>
      else vec3_new (smax (vx a) (vy b)) (smax (vy a) (vy b)) (smax (vz a) (vz b)))"

definition vec3_clamp :: "bool \<Rightarrow> 'a::{ord,zero} vec3 \<Rightarrow> 'a vec3 \<Rightarrow> 'a vec3 \<Rightarrow> 'a vec3" where
  \<comment> \<open>\<^verbatim>\<open>vec3::clamp\<close>: \<^verbatim>\<open>return max(a, min(v, b))\<close>\<close>
  "vec3_clamp simd v a b = vec3_max simd a (vec3_min simd v b)"

definition vec3_dot :: "bool \<Rightarrow> 'a::{plus,times,zero} vec3 \<Rightarrow> 'a vec3 \<Rightarrow> 'a" where
  \<comment> \<open>\<^verbatim>\<open>T dot(vec3 other) const\<close>: the argument is passed by value, so it is a copy with a
     zeroed padding slot. The vectorised branch multiplies the four lanes and adds them
     with two horizontal adds.\<close>
  "vec3_dot simd v other =
     (let ot = vec3_copy other in
      if simd
      then (vx v * vx ot + vy v * vy ot) + (vz v * vz ot + vpad v * vpad ot)
      else (vx v * vx ot) + (vy v * vy ot) + (vz v * vz ot))"

definition vec3_length :: "fp vec3 \<Rightarrow> fp" where
  \<comment> \<open>\<^verbatim>\<open>length()\<close>\<close>
  "vec3_length v = fsqrt ((vx v * vx v) + (vy v * vy v) + (vz v * vz v))"

definition vec3_lengthsquared :: "'a::{plus,times} vec3 \<Rightarrow> 'a" where
  \<comment> \<open>\<^verbatim>\<open>lengthsquared()\<close>\<close>
  "vec3_lengthsquared v = (vx v * vx v) + (vy v * vy v) + (vz v * vz v)"

definition vec3_normalize :: "bool \<Rightarrow> fp \<Rightarrow> fp vec3 \<Rightarrow> fp vec3" where
  \<comment> \<open>\<^verbatim>\<open>normalize()\<close>; \<open>eps\<close> is \<^verbatim>\<open>constants::epsilon\<close>, whose value is in the missing
     \<^verbatim>\<open>common.h\<close>\<close>
  "vec3_normalize simd eps v =
     (let mag = vec3_length v in
      if eps < mag then div_assign_T simd v (vec3_length v)
      else vec3_set v (Fin 0) (Fin 0) (Fin 0))"

definition op_neg :: "'a::{uminus,zero} vec3 \<Rightarrow> 'a vec3" where
  \<comment> \<open>Modelled from the spec: the unary \<^verbatim>\<open>operator -\<close> of \<^verbatim>\<open>vec3\<close>, which \<^verbatim>\<open>quat\<close> uses
     (\<^verbatim>\<open>-q.xyz\<close>) and \<^verbatim>\<open>vec3.h\<close> does not define: "negates vector part".\<close>
  "op_neg v = vec3_new (- vx v) (- vy v) (- vz v)"


section \<open>quat\<close>

text \<open>
  \<^verbatim>\<open>quat<T>\<close> is a union of \<^verbatim>\<open>struct { T x, y, z, w; }\<close>,
  \<^verbatim>\<open>struct { vec3<T> xyz; T s; }\<close> and \<^verbatim>\<open>vec4<T> v\<close>. The three views share their storage:
  \<^verbatim>\<open>xyz\<close> is a \<^verbatim>\<open>vec3<T>\<close>, that is four slots of type \<^verbatim>\<open>T\<close>, at offset 0, so its padding
  slot \<^verbatim>\<open>xyz.v[3]\<close> is the storage of \<^verbatim>\<open>w\<close>. The record is the first view; \<open>quat_xyz\<close>
  reads the second, \<open>quat_store_xyz\<close> writes its four slots back, and \<open>quat_assign_xyz\<close>
  is the assignment \<^verbatim>\<open>xyz = value\<close>, which copies three components.
  The quaternion operations are those of \<^verbatim>\<open>fquat\<close>: every \<^verbatim>\<open>vec3\<close> operation below
  runs its vectorised branch (\<open>simd = True\<close>).

  \<^verbatim>\<open>operator *=\<close>, \<^verbatim>\<open>slerp\<close>, \<^verbatim>\<open>axisangle\<close> and \<^verbatim>\<open>eulerAngles\<close> are not embedded, because
  their bodies are ill-formed for every \<^verbatim>\<open>T\<close> and so have no behaviour to translate:
  \<^item> \<^verbatim>\<open>operator *=\<close> (and with it \<^verbatim>\<open>operator * (quat, quat)\<close>) calls a two-argument static
    \<^verbatim>\<open>vec3<T>::dot\<close> and an \<^verbatim>\<open>operator * (T, vec3<T>)\<close> that \<^verbatim>\<open>vec3.h\<close> does not declare,
    and has no \<^verbatim>\<open>return\<close>;
  \<^item> \<^verbatim>\<open>slerp\<close> assigns to \<^verbatim>\<open>b.xyz\<close> and \<^verbatim>\<open>a.w\<close> through references to \<^verbatim>\<open>const\<close> and calls the
    same two functions;
  \<^item> \<^verbatim>\<open>axisangle\<close> calls the non-const \<^verbatim>\<open>normalize()\<close> on a \<^verbatim>\<open>const vec3<T>&\<close>;
  \<^item> \<^verbatim>\<open>axisangle\<close> and \<^verbatim>\<open>eulerAngles\<close> use \<^verbatim>\<open>operator * (vec3<T>, T)\<close>, whose body is
    \<^verbatim>\<open>left += right\<close> with a scalar \<^verbatim>\<open>right\<close>: \<^verbatim>\<open>vec3\<close> has no \<^verbatim>\<open>operator += (T)\<close> and its
    constructor from \<^verbatim>\<open>T\<close> is \<^verbatim>\<open>explicit\<close>.
\<close>

record quat =
  qx :: fp
  qy :: fp
  qz :: fp
  qw :: fp

definition quat_xyz :: "quat \<Rightarrow> fp vec3" where
  "quat_xyz q = \<lparr>vx = qx q, vy = qy q, vz = qz q, vpad = qw q\<rparr>"

definition quat_store_xyz :: "fp vec3 \<Rightarrow> quat" where
  "quat_store_xyz v = \<lparr>qx = vx v, qy = vy v, qz = vz v, qw = vpad v\<rparr>"

definition quat_assign_xyz :: "quat \<Rightarrow> fp vec3 \<Rightarrow> quat" where
  "quat_assign_xyz q v = quat_store_xyz (vec3_assign (quat_xyz q) v)"

definition quat_new :: "fp \<Rightarrow> fp \<Rightarrow> fp \<Rightarrow> fp \<Rightarrow> quat" where
  \<comment> \<open>\<^verbatim>\<open>quat(T x, T y, T z, T w)\<close>\<close>
  "quat_new a b c d = \<lparr>qx = a, qy = b, qz = c, qw = d\<rparr>"

definition quat_default :: quat where
  \<comment> \<open>\<^verbatim>\<open>quat()\<close>: \<^verbatim>\<open>v.zero()\<close>\<close>
  "quat_default = \<lparr>qx = Fin 0, qy = Fin 0, qz = Fin 0, qw = Fin 0\<rparr>"

definition identity :: quat where
  \<comment> \<open>\<^verbatim>\<open>identity()\<close>: \<^verbatim>\<open>quat(0, 0, 0, 1)\<close>\<close>
  "identity = quat_new (Fin 0) (Fin 0) (Fin 0) (Fin 1)"

definition vec4_dot :: "quat \<Rightarrow> quat \<Rightarrow> fp" where
  \<comment> \<open>Modelled from the spec: \<^verbatim>\<open>vec4::dot\<close>; \<^verbatim>\<open>vec4.h\<close> is not among the sources, the
     specification calls \<^verbatim>\<open>vec4\<close> the four-component analog of \<^verbatim>\<open>vec3\<close>.\<close>
  "vec4_dot a b = (qx a * qx b) + (qy a * qy b) + (qz a * qz b) + (qw a * qw b)"

definition vec4_lengthsquared :: "quat \<Rightarrow> fp" where
  \<comment> \<open>Modelled from the spec: \<^verbatim>\<open>vec4::lengthsquared\<close>, missing with \<^verbatim>\<open>vec4.h\<close>.\<close>
  "vec4_lengthsquared a = (qx a * qx a) + (qy a * qy a) + (qz a * qz a) + (qw a * qw a)"

definition vec4_length :: "quat \<Rightarrow> fp" where
  \<comment> \<open>Modelled from the spec: \<^verbatim>\<open>vec4::length\<close>, missing with \<^verbatim>\<open>vec4.h\<close>.\<close>
  "vec4_length a = fsqrt ((qx a * qx a) + (qy a * qy a) + (qz a * qz a) + (qw a * qw a))"

definition vec4_mul_assign_T :: "quat \<Rightarrow> fp \<Rightarrow> quat" where
  \<comment> \<open>Modelled from the spec: \<^verbatim>\<open>vec4::operator *= (const T)\<close>, missing with \<^verbatim>\<open>vec4.h\<close>.\<close>
  "vec4_mul_assign_T a s = \<lparr>qx = qx a * s, qy = qy a * s, qz = qz a * s, qw = qw a * s\<rparr>"

definition quat_eq :: "quat \<Rightarrow> quat \<Rightarrow> bool" where
  \<comment> \<open>\<^verbatim>\<open>operator ==\<close>: \<^verbatim>\<open>v.dot(other.v) > static_cast<T>(0.999999)\<close>\<close>
  "quat_eq a other = (Fin (999999 / 1000000) < vec4_dot a other)"

definition quat_neq :: "quat \<Rightarrow> quat \<Rightarrow> bool" where
  \<comment> \<open>\<^verbatim>\<open>operator !=\<close>: \<^verbatim>\<open>v.dot(other.v) <= static_cast<T>(0.999999)\<close>\<close>
  "quat_neq a other = (vec4_dot a other \<le> Fin (999999 / 1000000))"

definition quat_normalize :: "quat \<Rightarrow> quat" where
  \<comment> \<open>\<^verbatim>\<open>normalize()\<close>: \<^verbatim>\<open>T scale = static_cast<T>(1) / length(); v *= scale;\<close>\<close>
  "quat_normalize q = (let scale = Fin 1 / vec4_length q in vec4_mul_assign_T q scale)"

definition quat_conjugate :: "quat \<Rightarrow> quat" where
  \<comment> \<open>\<^verbatim>\<open>conjugate()\<close>: \<^verbatim>\<open>quat q(v); q.xyz = -q.xyz; return q;\<close>\<close>
  "quat_conjugate q = quat_assign_xyz q (op_neg (quat_xyz q))"

definition quat_invert :: "quat \<Rightarrow> quat" where
  \<comment> \<open>\<^verbatim>\<open>invert()\<close>: \<^verbatim>\<open>xyz *= -i\<close> is \<^verbatim>\<open>vec3<T>::operator *= (const T)\<close> on the union member
     \<^verbatim>\<open>xyz\<close>, then \<^verbatim>\<open>w *= i\<close>.\<close>
  "quat_invert q =
     (let lengthSq = vec4_lengthsquared q in
      if lengthSq \<noteq> Fin 0
      then (let i = Fin 1 / lengthSq;
                q1 = quat_store_xyz (mul_assign_T True (quat_xyz q) (- i))
            in q1\<lparr>qw := qw q1 * i\<rparr>)
      else q)"

definition spec_inverse :: "quat \<Rightarrow> quat" where
  \<comment> \<open>the specification's general inverse, for comparison with \<open>quat_invert\<close>:
     "conjugate / lengthsquared"\<close>
  "spec_inverse q = vec4_mul_assign_T (quat_conjugate q) (Fin 1 / vec4_lengthsquared q)"


section \<open>Component-wise minimum and maximum\<close>

lemma vec3_min_components:
  "vx (vec3_min simd a b) = smin (vx a) (vx b) \<and>
   vy (vec3_min simd a b) = smin (vy a) (vy b) \<and>
   vz (vec3_min simd a b) = smin (vz a) (vz b)"
  by (simp add: vec3_min_def vec3_new_def)

lemma vec3_max_vectorised_components:
  "vx (vec3_max True a b) = smax (vx a) (vx b) \<and>
   vy (vec3_max True a b) = smax (vy a) (vy b) \<and>
   vz (vec3_max True a b) = smax (vz a) (vz b)"
  by (simp add: vec3_max_def)

lemma vec3_max_fallback_components:
  "vx (vec3_max False a b) = smax (vx a) (vy b) \<and>
   vy (vec3_max False a b) = smax (vy a) (vy b) \<and>
   vz (vec3_max False a b) = smax (vz a) (vz b)"
  by (simp add: vec3_max_def vec3_new_def)

lemma smin_smax_int: "smin (a::int) b = min a b \<and> smax a b = max a b"
  by (simp add: smin_def smax_def min_def max_def)

lemma vec3_clamp_is_max_min: "vec3_clamp simd v a b = vec3_max simd a (vec3_min simd v b)"
  by (simp add: vec3_clamp_def)

text \<open>
  C7. \<^verbatim>\<open>vec3::max\<close> is not the component-wise maximum for every scalar type: at \<^verbatim>\<open>ivec3\<close>
  (the fallback branch, \<open>simd = False\<close>) the first component of \<open>max((0,0,0), (0,5,0))\<close>
  is \<open>max(a.x, b.y) = 5\<close>, where the component-wise maximum is \<open>max(a.x, b.x) = 0\<close>.
\<close>

theorem vec3_max_fallback_reads_by:
  "vec3_max False (vec3_new (0::int) 0 0) (vec3_new 0 5 0) = vec3_new 5 5 0 \<and>
   max (vx (vec3_new (0::int) 0 0)) (vx (vec3_new (0::int) 5 0)) = 0"
  by (simp add: vec3_max_def vec3_new_def smax_def)


section \<open>The padding slot\<close>

lemma vec3_constructors_zero_padding:
  "vpad (vec3_new a b c) = 0 \<and> vpad (vec3_default :: 'a::zero vec3) = 0 \<and>
   vpad (vec3_splat a) = 0 \<and> vpad (vec3_copy v) = 0"
  by (simp add: vec3_new_def vec3_default_def vec3_splat_def vec3_copy_def)

lemma fallback_keeps_padding:
  "vpad (add_assign False v other) = vpad v"
  "vpad (sub_assign False v other) = vpad v"
  "vpad (mul_assign False v other) = vpad v"
  "vpad (mul_assign_T False v s) = vpad v"
  "vpad (div_assign False v other) = vpad v"
  "vpad (div_assign_T False v s) = vpad v"
  "vpad (vec3_assign v other) = vpad v"
  "vpad (vec3_set v a b c) = vpad v"
  by (simp_all add: add_assign_def sub_assign_def mul_assign_def mul_assign_T_def
      div_assign_def div_assign_T_def vec3_assign_def vec3_set_def)

lemma vectorised_sum_keeps_zero_padding:
  "vpad v = Fin 0 \<Longrightarrow> vpad other = Fin 0 \<Longrightarrow>
   vpad (add_assign True v other) = Fin 0 \<and> vpad (sub_assign True v other) = Fin 0 \<and>
   vpad (mul_assign True v other) = Fin 0"
  by (simp add: add_assign_def sub_assign_def mul_assign_def minus_fp_def)

lemma vec3_length_cases:
  "vec3_length v = NaN \<or> vec3_length v = PInf \<or> (\<exists>m. 0 \<le> m \<and> vec3_length v = Fin m)"
  unfolding vec3_length_def
  by (cases "(vx v * vx v) + (vy v * vy v) + (vz v * vz v)") auto

lemma normalize_keeps_zero_padding:
  assumes "vpad v = Fin 0" "Fin 0 \<le> eps"
  shows "vpad (vec3_normalize simd eps v) = Fin 0"
proof -
  consider "vec3_length v = NaN" | "vec3_length v = PInf"
    | m where "0 \<le> m" "vec3_length v = Fin m"
    using vec3_length_cases by blast
  then show ?thesis
  proof cases
    case 1
    then show ?thesis
      using assms by (cases eps) (simp_all add: vec3_normalize_def vec3_set_def)
  next
    case 2
    then show ?thesis
      using assms
      by (cases eps) (simp_all add: vec3_normalize_def vec3_set_def div_assign_T_def)
  next
    case 3
    then show ?thesis
      using assms
      by (cases eps) (auto simp add: vec3_normalize_def vec3_set_def div_assign_T_def)
  qed
qed

lemma nan_padding_reaches_dot:
  "vec3_dot True (div_assign True (vec3_new (Fin 1) (Fin 2) (Fin 3))
                                  (vec3_new (Fin 1) (Fin 1) (Fin 1)))
                 (vec3_new (Fin 1) (Fin 1) (Fin 1)) = NaN"
  by (simp add: vec3_dot_def div_assign_def vec3_new_def vec3_copy_def zero_fp_def)

text \<open>
  C8. The padding slot is not zero after every public operation: at \<^verbatim>\<open>fvec3\<close> the
  compound division \<^verbatim>\<open>a /= b\<close> divides all four lanes, and the padding lane is
  \<open>0 / 0\<close>. For \<open>a = (1,2,3)\<close> and \<open>b = (1,1,1)\<close>, both freshly constructed with a zero
  padding slot, \<open>a\<close> ends with a NaN in \<^verbatim>\<open>v[3]\<close>. (The constructors, the fallback
  branches, the vectorised \<open>+=\<close>, \<open>-=\<close>, \<open>*=\<close> and \<open>normalize\<close> keep a zero padding slot,
  and the vectorised \<open>dot\<close> of that \<open>a\<close> with \<open>(1,1,1)\<close> is a NaN: the lemmas above.)
\<close>

theorem div_assign_vectorised_padding_nan:
  "div_assign True (vec3_new (Fin 1) (Fin 2) (Fin 3)) (vec3_new (Fin 1) (Fin 1) (Fin 1))
     = \<lparr>vx = Fin 1, vy = Fin 2, vz = Fin 3, vpad = NaN\<rparr>"
  by (simp add: div_assign_def vec3_new_def zero_fp_def)


section \<open>Quaternion equality\<close>

lemma fsqrt_eq_FinD: "fsqrt s = Fin r \<Longrightarrow> \<exists>t. s = Fin t \<and> 0 \<le> t \<and> sqrt t = r"
  by (cases s) (auto split: if_splits)

text \<open>
  C10. Quaternion equality is not reflexive: \<open>q == q\<close> holds exactly when the squared
  length of \<open>q\<close> exceeds 0.999999. For the zero quaternion, and for every quaternion of
  length 0.5, \<open>q == q\<close> is false and \<open>q != q\<close> is true.
\<close>

theorem quat_eq_not_reflexive:
  "(\<forall>q. quat_eq q q = (Fin (999999 / 1000000) < vec4_lengthsquared q)) \<and>
   (\<not> quat_eq quat_default quat_default \<and> quat_neq quat_default quat_default) \<and>
   (\<forall>q. vec4_length q = Fin (1 / 2) \<longrightarrow> \<not> quat_eq q q \<and> quat_neq q q)"
proof (intro conjI allI impI)
  fix q
  show "quat_eq q q = (Fin (999999 / 1000000) < vec4_lengthsquared q)"
    by (simp add: quat_eq_def vec4_dot_def vec4_lengthsquared_def)
next
  show "\<not> quat_eq quat_default quat_default"
    by (simp add: quat_eq_def vec4_dot_def quat_default_def)
next
  show "quat_neq quat_default quat_default"
    by (simp add: quat_neq_def vec4_dot_def quat_default_def)
next
  fix q
  assume len: "vec4_length q = Fin (1 / 2)"
  then obtain t where t: "vec4_dot q q = Fin t" "0 \<le> t" "sqrt t = 1 / 2"
    unfolding vec4_length_def vec4_dot_def using fsqrt_eq_FinD by blast
  from t(3) have "t = (1 / 2)\<^sup>2"
    using t(2) by (metis real_sqrt_pow2)
  then have t4: "t = 1 / 4"
    by (simp add: power2_eq_square)
  show "\<not> quat_eq q q"
    using t(1) t4 by (simp add: quat_eq_def)
  show "quat_neq q q"
    using t(1) t4 by (simp add: quat_neq_def)
qed

theorem quat_eq_not_reflexive_witness:
  "vec4_length (quat_new (Fin 0) (Fin 0) (Fin 0) (Fin (1 / 2))) = Fin (1 / 2) \<and>
   \<not> quat_eq (quat_new (Fin 0) (Fin 0) (Fin 0) (Fin (1 / 2)))
             (quat_new (Fin 0) (Fin 0) (Fin 0) (Fin (1 / 2))) \<and>
   quat_neq (quat_new (Fin 0) (Fin 0) (Fin 0) (Fin (1 / 2)))
            (quat_new (Fin 0) (Fin 0) (Fin 0) (Fin (1 / 2)))"
proof -
  have len: "vec4_length (quat_new (Fin 0) (Fin 0) (Fin 0) (Fin (1 / 2))) = Fin (1 / 2)"
  proof -
    have "sqrt (1 / 4) = 1 / (2::real)"
      by (simp add: real_sqrt_divide)
    then show ?thesis
      by (simp add: vec4_length_def quat_new_def)
  qed
  with quat_eq_not_reflexive show ?thesis
    by blast
qed


section \<open>Inversion\<close>

lemma quat_invert_zero_length:
  "vec4_lengthsquared q = Fin 0 \<Longrightarrow> quat_invert q = q"
  by (simp add: quat_invert_def)

lemma mul_assign_T_fallback_on_xyz:
  "quat_store_xyz (mul_assign_T False (quat_xyz q) s) =
     \<lparr>qx = qx q * s, qy = qy q * s, qz = qz q * s, qw = qw q\<rparr>"
  by (simp add: quat_store_xyz_def quat_xyz_def mul_assign_T_def)

lemma mul_assign_T_vectorised_on_xyz:
  "quat_store_xyz (mul_assign_T True (quat_xyz q) s) =
     \<lparr>qx = qx q * s, qy = qy q * s, qz = qz q * s, qw = qw q * s\<rparr>"
  by (simp add: quat_store_xyz_def quat_xyz_def mul_assign_T_def)

text \<open>
  C9. \<^verbatim>\<open>invert()\<close> leaves a quaternion of squared length 0 unchanged
  (\<open>quat_invert_zero_length\<close>), but for a nonzero one it does not compute
  \<open>conjugate / lengthsquared\<close>: \<^verbatim>\<open>xyz *= -i\<close> runs on the four lanes of the union member
  \<^verbatim>\<open>xyz\<close>, the fourth of which is \<^verbatim>\<open>w\<close>, and \<^verbatim>\<open>w *= i\<close> scales \<^verbatim>\<open>w\<close> again. For
  \<open>q = (0,0,0,2)\<close> the result is \<open>(0,0,0,-1/8)\<close>, the general inverse is \<open>(0,0,0,1/2)\<close>.
\<close>

theorem quat_invert_scales_w_twice:
  "quat_invert (quat_new (Fin 0) (Fin 0) (Fin 0) (Fin 2)) =
     quat_new (Fin 0) (Fin 0) (Fin 0) (Fin (- (1 / 8))) \<and>
   spec_inverse (quat_new (Fin 0) (Fin 0) (Fin 0) (Fin 2)) =
     quat_new (Fin 0) (Fin 0) (Fin 0) (Fin (1 / 2))"
  by (simp add: quat_invert_def vec4_lengthsquared_def quat_new_def quat_store_xyz_def
      quat_xyz_def mul_assign_T_def Let_def spec_inverse_def quat_conjugate_def
      quat_assign_xyz_def vec3_assign_def op_neg_def vec3_new_def vec4_mul_assign_T_def)


section \<open>Normalisation of a quaternion\<close>

text \<open>
  C6. \<^verbatim>\<open>quat::normalize\<close> has no epsilon guard. The zero quaternion is not reset to zero:
  its scale is \<open>1 / 0\<close>, infinite, and every component becomes \<open>0 * inf\<close>, a NaN.
\<close>

theorem quat_normalize_zero_is_nan:
  "quat_normalize quat_default = \<lparr>qx = NaN, qy = NaN, qz = NaN, qw = NaN\<rparr>"
  by (simp add: quat_normalize_def quat_default_def vec4_length_def vec4_mul_assign_T_def)

end
